theory Spec2Isabelle
  imports Complex_Main
begin

section \<open>JavaScript values used by server.js\<close>

text \<open>
  The risk levels of server.js are JavaScript numbers produced by \<open>parseInt\<close>, by
  \<open>Math.max\<close>/\<open>Math.min\<close> and by subtracting or adding one: integers, or \<open>NaN\<close> when an
  attribute does not start with a digit. They are modelled as \<open>jsnum\<close>. The model
  computes with exact integers, where JavaScript computes with doubles: the two agree on
  the safe integers, those of magnitude below \<open>2^53\<close> (\<open>Number.isSafeInteger\<close>), and a
  statement about a parsed or computed number carries \<open>safeInteger\<close> as a hypothesis
  unless its numbers are bounded otherwise.
\<close>

datatype jsnum = NaN | Num int

definition safeInteger :: "int \<Rightarrow> bool" where
  "safeInteger n = (\<bar>n\<bar> < 2 ^ 53)"

fun Math_max :: "jsnum \<Rightarrow> jsnum \<Rightarrow> jsnum" where
  "Math_max (Num a) (Num b) = Num (max a b)"
| "Math_max _ _ = NaN"

fun Math_min :: "jsnum \<Rightarrow> jsnum \<Rightarrow> jsnum" where
  "Math_min (Num a) (Num b) = Num (min a b)"
| "Math_min _ _ = NaN"

text \<open>
  \<open>x - k\<close> and \<open>x + k\<close> for a literal \<open>k\<close>: exact, as in JavaScript when \<open>x\<close> is a safe
  integer and \<open>k\<close> is 1 (beyond \<open>2^53\<close> JavaScript rounds the result to a double).
\<close>

fun minus_lit :: "jsnum \<Rightarrow> int \<Rightarrow> jsnum" where
  "minus_lit (Num a) k = Num (a - k)"
| "minus_lit NaN k = NaN"

fun plus_lit :: "jsnum \<Rightarrow> int \<Rightarrow> jsnum" where
  "plus_lit (Num a) k = Num (a + k)"
| "plus_lit NaN k = NaN"

text \<open>\<open>x >= k\<close> for a literal \<open>k\<close>, \<open>a > b\<close> and \<open>a <= b\<close>: every comparison with \<open>NaN\<close> is false.\<close>

fun ge_lit :: "jsnum \<Rightarrow> int \<Rightarrow> bool" where
  "ge_lit (Num a) k = (k \<le> a)"
| "ge_lit NaN k = False"

fun js_gt :: "jsnum \<Rightarrow> jsnum \<Rightarrow> bool" where
  "js_gt (Num a) (Num b) = (b < a)"
| "js_gt _ _ = False"

fun js_le :: "jsnum \<Rightarrow> jsnum \<Rightarrow> bool" where
  "js_le (Num a) (Num b) = (a \<le> b)"
| "js_le _ _ = False"

text \<open>\<open>x || k\<close> for a number \<open>x\<close>: \<open>NaN\<close> and \<open>0\<close> are falsy.\<close>

fun num_or :: "jsnum \<Rightarrow> int \<Rightarrow> jsnum" where
  "num_or NaN k = Num k"
| "num_or (Num a) k = (if a = 0 then Num k else Num a)"

subsection \<open>Strings\<close>

text \<open>
  A JavaScript string is a sequence of UTF-16 code units. The model uses \<open>string\<close>: one
  \<open>char\<close> per code unit, which covers the code units below 256 (ASCII and Latin-1, so
  the accented letters of the French keywords: \<open>CHR 0xE9\<close> is e-acute). The glyphs beyond
  Latin-1 that occur in literals of server.js (the icons, the warning sign that opens the
  fallback note) are written by their code points, as in \<open>''U+1F4A8''\<close>.
\<close>

definition toLowerChar :: "char \<Rightarrow> char" where
  "toLowerChar c =
     (let n = (of_char c :: nat) in
      if (65 \<le> n \<and> n \<le> 90) \<or> (192 \<le> n \<and> n \<le> 222 \<and> n \<noteq> 215)
      then char_of (n + 32) else c)"

definition toLowerCase :: "string \<Rightarrow> string" where
  "toLowerCase s = map toLowerChar s"

text \<open>\<open>hay.includes(needle)\<close>: the needle occurs at some position of the hay.\<close>

fun startsWith :: "string \<Rightarrow> string \<Rightarrow> bool" where
  "startsWith hay [] = True"
| "startsWith [] (n # ns) = False"
| "startsWith (h # hs) (n # ns) = (h = n \<and> startsWith hs ns)"

fun str_includes :: "string \<Rightarrow> string \<Rightarrow> bool" where
  "str_includes [] needle = (needle = [])"
| "str_includes (h # hs) needle = (startsWith (h # hs) needle \<or> str_includes hs needle)"

text \<open>\<open>a || d\<close> for an attribute or text \<open>a\<close> that may be undefined: the empty string is falsy.\<close>

definition str_or :: "string option \<Rightarrow> string \<Rightarrow> string" where
  "str_or a d = (case a of None \<Rightarrow> d | Some s \<Rightarrow> if s = [] then d else s)"

text \<open>
  \<open>parseInt(str)\<close> with no radix: leading white space is skipped, a sign is read, the
  prefix \<open>0x\<close> selects radix 16, the longest run of digits is converted, and the result
  is \<open>NaN\<close> when that run is empty. The model returns the exact integer of the run;
  JavaScript returns that integer when it is safe, and the nearest double beyond.
\<close>

definition isWhiteSpace :: "char \<Rightarrow> bool" where
  "isWhiteSpace c = ((of_char c :: nat) \<in> {9, 10, 11, 12, 13, 32, 160})"

definition digitValue :: "char \<Rightarrow> nat option" where
  "digitValue c =
     (let n = (of_char c :: nat) in
      if 48 \<le> n \<and> n \<le> 57 then Some (n - 48)
      else if 97 \<le> n \<and> n \<le> 122 then Some (n - 87)
      else if 65 \<le> n \<and> n \<le> 90 then Some (n - 55)
      else None)"

fun radixDigits :: "nat \<Rightarrow> string \<Rightarrow> nat list" where
  "radixDigits R [] = []"
| "radixDigits R (c # cs) =
     (case digitValue c of
        None \<Rightarrow> []
      | Some d \<Rightarrow> if d < R then d # radixDigits R cs else [])"

definition parseInt :: "string \<Rightarrow> jsnum" where
  "parseInt str =
     (let s0 = dropWhile isWhiteSpace str;
          sign = (if take 1 s0 = ''-'' then - 1 else 1 :: int);
          s1 = (if take 1 s0 = ''-'' \<or> take 1 s0 = ''+'' then drop 1 s0 else s0);
          hex = (take 2 s1 = ''0x'' \<or> take 2 s1 = ''0X'');
          R = (if hex then 16 else 10 :: nat);
          s2 = (if hex then drop 2 s1 else s1);
          Z = radixDigits R s2
      in if Z = [] then NaN else Num (sign * int (foldl (\<lambda>a d. a * R + d) 0 Z)))"

text \<open>
  Number to string, as a template literal does it: the decimal digits, which is what
  JavaScript prints for every safe integer (it turns to exponent notation from \<open>10^21\<close>).
\<close>

fun showNat :: "nat \<Rightarrow> string" where
  "showNat n =
     (if n < 10 then [''0123456789'' ! n]
      else showNat (n div 10) @ [''0123456789'' ! (n mod 10)])"

definition showInt :: "int \<Rightarrow> string" where
  "showInt i = (if i < 0 then ''-'' @ showNat (nat (- i)) else showNat (nat i))"

fun toString :: "jsnum \<Rightarrow> string" where
  "toString NaN = ''NaN''"
| "toString (Num i) = showInt i"

definition Meteo_France :: string where
  "Meteo_France = ''M'' @ [CHR 0xE9] @ ''t'' @ [CHR 0xE9] @ ''o-France''"

subsection \<open>Measurements\<close>

text \<open>
  The forecast helper compares measurements of the weather service (snowfall, wind speed,
  temperature): arbitrary JavaScript numbers. Every finite double is a real number and
  \<open>>\<close> compares the exact values, so a measurement is a real, an infinity or \<open>NaN\<close>
  (the value to which \<open>undefined\<close> converts; \<open>null\<close> converts to 0).
\<close>

datatype measurement = NotANumber | NegInfinity | Finite real | PosInfinity

fun exceeds :: "measurement \<Rightarrow> real \<Rightarrow> bool" where
  "exceeds (Finite x) c = (c < x)"
| "exceeds PosInfinity c = True"
| "exceeds NegInfinity c = False"
| "exceeds NotANumber c = False"

section \<open>Forecast helper (third revision)\<close>

text \<open>\<open>estimateAvalancheRisk(snowfall, windSpeed, temp)\<close>, the three \<open>if\<close> statements in order.\<close>

definition estimateAvalancheRisk :: "measurement \<Rightarrow> measurement \<Rightarrow> measurement \<Rightarrow> string" where
  "estimateAvalancheRisk snowfall windSpeed temp =
     (let risk0 = ''low'';
          risk1 = (if exceeds snowfall 20 then ''considerable''
                   else if exceeds snowfall 10 then ''moderate'' else risk0);
          risk2 = (if exceeds windSpeed 40
                   then (if risk1 = ''moderate'' then ''considerable''
                         else if risk1 = ''low'' then ''moderate'' else risk1)
                   else risk1);
          risk3 = (if exceeds temp 0 \<and> exceeds snowfall 5
                   then (if risk2 = ''low'' then ''moderate'' else risk2)
                   else risk2)
      in risk3)"

section \<open>Risk-rule engine (third revision)\<close>

text \<open>
  An elevation band of a bulletin. \<open>description\<close> is a property whose value is a string or
  \<open>undefined\<close>: the second revision stores the result of a table lookup there.
\<close>

record elevationBand =
  elevation :: string
  risk :: jsnum
  aspects :: "string list"
  description :: "string option"

text \<open>
  A table such as \<open>descriptions\<close> is an object literal with the keys 1 to 5; \<open>tbl[level]\<close>
  is the entry of that key, or \<open>undefined\<close> (\<open>None\<close>) for every other number and for
  \<open>NaN\<close>. \<open>a || b\<close> on such entries takes \<open>b\<close> when \<open>a\<close> is undefined or empty, and
  \<open>ToString\<close> is the conversion that string concatenation applies.
\<close>

definition tbl_get :: "(int \<times> string) list \<Rightarrow> jsnum \<Rightarrow> string option" where
  "tbl_get tbl level = (case level of NaN \<Rightarrow> None | Num n \<Rightarrow> map_of tbl n)"

definition js_or :: "string option \<Rightarrow> string option \<Rightarrow> string option" where
  "js_or a b = (case a of None \<Rightarrow> b | Some s \<Rightarrow> if s = [] then b else Some s)"

definition ToString :: "string option \<Rightarrow> string" where
  "ToString a = (case a of None \<Rightarrow> ''undefined'' | Some s \<Rightarrow> s)"

definition getRiskDescription :: "jsnum \<Rightarrow> string option" where
  "getRiskDescription level =
     (let descriptions =
        [(1, ''Generally safe conditions.''),
         (2, ''Heightened avalanche conditions on specific terrain features. Careful evaluation needed.''),
         (3, ''Dangerous avalanche conditions. Careful snowpack evaluation required.''),
         (4, ''Very dangerous conditions. Travel in avalanche terrain not recommended.''),
         (5, ''Extraordinary conditions. Avoid all avalanche terrain.'')]
      in js_or (tbl_get descriptions level) (tbl_get descriptions (Num 3)))"

definition generateDetailedSummary :: "jsnum \<Rightarrow> jsnum \<Rightarrow> jsnum \<Rightarrow> string" where
  "generateDetailedSummary overall high low =
     (let summaries =
        [(1, ''Low avalanche risk across all elevations. Snow is generally well bonded and stable. Natural avalanches are unlikely. Human-triggered avalanches are possible only in isolated areas on very steep terrain.''),
         (2, ''Moderate avalanche risk. Unstable snow exists in specific areas, particularly on steep slopes at higher elevations. Careful route selection and snowpack evaluation are recommended. Natural avalanches are unlikely, but human-triggered avalanches are possible.''),
         (3, ''Considerable avalanche risk. Dangerous avalanche conditions exist on many slopes, especially at higher elevations. Careful snowpack evaluation, cautious route-finding, and conservative decision-making are essential. Natural avalanches are possible, and human-triggered avalanches are likely in many areas.''),
         (4, ''High avalanche risk. Very dangerous avalanche conditions across most terrain. Natural and human-triggered avalanches are likely on many slopes. Travel in avalanche terrain should be avoided. Only experts with extensive experience should consider backcountry travel.''),
         (5, ''Very high avalanche risk. Extraordinary avalanche situation with widespread instability. Large natural avalanches are expected. All avalanche terrain should be avoided, regardless of experience level.'')];
          summary0 = ToString (js_or (tbl_get summaries overall) (tbl_get summaries (Num 3)));
          summary1 = (if js_gt high low
                      then summary0 @ '' Conditions are particularly dangerous at higher elevations (above 2500m) where the risk is elevated to level '' @ toString high @ ''.''
                      else summary0)
      in summary1 @ '' Always check the official '' @ Meteo_France @ '' bulletin before heading into the backcountry.'')"

definition generateElevationBands :: "jsnum \<Rightarrow> jsnum \<Rightarrow> elevationBand list" where
  "generateElevationBands highRisk lowRisk =
     [\<lparr>elevation = ''Above 2500m'',
       risk = highRisk,
       aspects = (if ge_lit highRisk 3 then [''N'', ''NE'', ''E'', ''NW''] else [''N'', ''NE'']),
       description = Some (ToString (getRiskDescription highRisk)
         @ '' Wind-loaded slopes and shaded aspects are most critical.'')\<rparr>,
      \<lparr>elevation = ''2000m - 2500m'',
       risk = Math_max (minus_lit highRisk 1) lowRisk,
       aspects = [''N'', ''NE'', ''E''],
       description = Some (ToString (getRiskDescription (Math_max (minus_lit highRisk 1) lowRisk))
         @ '' Evaluate conditions carefully on steep north-facing terrain.'')\<rparr>,
      \<lparr>elevation = ''Below 2000m'',
       risk = lowRisk,
       aspects = (if ge_lit lowRisk 3 then [''All''] else [''S'', ''SE'', ''SW'']),
       description = Some (ToString (getRiskDescription lowRisk)
         @ (if ge_lit lowRisk 2
            then '' Warming temperatures may cause wet snow instabilities on sunny slopes.''
            else []))\<rparr>]"

record problem =
  type :: string
  severity :: string
  distribution :: string
  sensitivity :: string
  icon :: string

text \<open>\<open>generateProblems\<close>: the three \<open>push\<close> statements in order, then the placeholder.\<close>

definition generateProblems :: "jsnum \<Rightarrow> problem list" where
  "generateProblems riskLevel =
     (let problems0 = [];
          problems1 =
            (if ge_lit riskLevel 2
             then problems0 @
               [\<lparr>type = ''Wind Slab'',
                 severity = (if ge_lit riskLevel 3 then ''High'' else ''Moderate''),
                 distribution = (if ge_lit riskLevel 3 then ''Widespread above 2200m''
                                 else ''Specific lee slopes above 2500m''),
                 sensitivity = (if ge_lit riskLevel 4 then ''Very High - remote triggering possible''
                                else if ge_lit riskLevel 3 then ''High - easily triggered by skiers''
                                else ''Moderate - triggering possible with high additional load''),
                 icon = ''U+1F4A8''\<rparr>]
             else problems0);
          problems2 =
            (if ge_lit riskLevel 3
             then problems1 @
               [\<lparr>type = ''Persistent Weak Layers'',
                 severity = (if ge_lit riskLevel 4 then ''High'' else ''Moderate''),
                 distribution = ''Specific aspects, particularly shaded slopes'',
                 sensitivity = (if ge_lit riskLevel 4
                                then ''High - persistent problem requiring careful evaluation''
                                else ''Moderate - identifiable with snowpack tests''),
                 icon = ''U+26A0 U+FE0F''\<rparr>]
             else problems1);
          problems3 =
            (if ge_lit riskLevel 2
             then problems2 @
               [\<lparr>type = ''Wet Snow'',
                 severity = ''Low to Moderate'',
                 distribution = ''Sunny aspects below 2500m, especially in afternoon'',
                 sensitivity = ''Increases with warming temperatures and solar radiation'',
                 icon = ''U+1F4A7''\<rparr>]
             else problems2)
      in if length problems3 > 0 then problems3
         else [\<lparr>type = ''Generally stable conditions'',
                severity = ''Low'',
                distribution = ''Most terrain'',
                sensitivity = ''Low'',
                icon = ''U+2714''\<rparr>])"

record snowpackInfo =
  recentSnow :: string
  totalDepth :: string
  quality :: string

definition generateSnowpackInfo :: "jsnum \<Rightarrow> snowpackInfo" where
  "generateSnowpackInfo riskLevel =
     \<lparr>recentSnow = (if ge_lit riskLevel 3 then ''Significant recent snowfall (20-40cm in last 48h)''
                    else if ge_lit riskLevel 2 then ''Moderate recent snowfall (10-20cm)''
                    else ''Minimal recent snowfall''),
      totalDepth = ''Depth varies by elevation: 180-220cm at 2500m, less at lower elevations'',
      quality = (if ge_lit riskLevel 3
                 then ''Wind-affected and variable at higher elevations. Surface hoar and weak layers present in some areas.''
                 else if ge_lit riskLevel 2
                 then ''Generally well-bonded with some wind effect at ridgelines''
                 else ''Well-consolidated and stable across most elevations'')\<rparr>"

record weatherInfo =
  forecast :: string
  temperature :: string
  wind :: string

definition generateWeatherInfo :: "jsnum \<Rightarrow> weatherInfo" where
  "generateWeatherInfo riskLevel =
     \<lparr>forecast = (if ge_lit riskLevel 3
                  then ''Unsettled conditions with periods of snowfall. Strong winds at altitude.''
                  else if ge_lit riskLevel 2
                  then ''Variable conditions with occasional snow showers possible''
                  else ''Generally stable weather with improving conditions''),
      temperature = ''Cold at altitude (-8'' @ [CHR 0xB0] @ ''C to -12'' @ [CHR 0xB0]
                    @ ''C at 2500m). Gradual warming trend expected in coming days.'',
      wind = (if ge_lit riskLevel 3
              then ''Strong NW winds 60-80 km/h at ridgelines, causing significant snow transport''
              else if ge_lit riskLevel 2
              then ''Moderate winds 30-50 km/h, some snow transport at exposed areas''
              else ''Light to moderate winds, minimal snow transport'')\<rparr>"

definition generateTendency :: "jsnum \<Rightarrow> string" where
  "generateTendency riskLevel =
     (if ge_lit riskLevel 4
      then ''Risk will remain high over the next 24-48 hours. Gradual improvement expected after mid-week as snowfall decreases and snowpack begins to consolidate.''
      else if ge_lit riskLevel 3
      then ''Risk will gradually decrease over the next 48 hours as new snow consolidates and winds diminish. Continue to exercise caution and monitor conditions closely.''
      else if ge_lit riskLevel 2
      then ''Conditions expected to gradually improve as recent snow stabilizes. Continued monitoring recommended, especially on steep shaded slopes.''
      else ''Conditions expected to remain generally stable. Standard precautions apply for backcountry travel.'')"

section \<open>Heuristic scan and default bands (first and second revision)\<close>

text \<open>
  \<open>extractOverallRisk\<close> (first revision) and the head of \<open>scrapeMeteoFranceWeb\<close>
  (second revision) scan the text of the selected page elements; that text is the
  argument. The risk level is the only value the second revision scrapes: the bands come
  from \<open>getDefaultElevationBands\<close>.
\<close>

definition extractOverallRisk :: "string \<Rightarrow> jsnum" where
  "extractOverallRisk text =
     (let riskText = toLowerCase text in
      if str_includes riskText ''fort'' \<or> str_includes riskText ''4'' then Num 4
      else if str_includes riskText (''marqu'' @ [CHR 0xE9]) \<or> str_includes riskText ''3'' then Num 3
      else if str_includes riskText (''limit'' @ [CHR 0xE9]) \<or> str_includes riskText ''2'' then Num 2
      else if str_includes riskText ''faible'' \<or> str_includes riskText ''1'' then Num 1
      else Num 3)"

definition scrapeMeteoFranceWeb_riskLevel :: "string \<Rightarrow> jsnum" where
  "scrapeMeteoFranceWeb_riskLevel text =
     (let riskLevel = Num 3;
          riskText = toLowerCase text
      in if str_includes riskText ''4'' \<or> str_includes riskText ''fort'' then Num 4
         else if str_includes riskText ''3'' \<or> str_includes riskText (''marqu'' @ [CHR 0xE9]) then Num 3
         else if str_includes riskText ''2'' \<or> str_includes riskText (''limit'' @ [CHR 0xE9]) then Num 2
         else if str_includes riskText ''1'' \<or> str_includes riskText ''faible'' then Num 1
         else riskLevel)"

definition translateRiskDescription :: "jsnum \<Rightarrow> string option" where
  "translateRiskDescription level =
     (let descriptions =
        [(1, ''Generally safe conditions. Natural avalanches unlikely.''),
         (2, ''Heightened avalanche conditions on specific terrain. Careful evaluation needed.''),
         (3, ''Dangerous avalanche conditions. Careful snowpack evaluation required.''),
         (4, ''Very dangerous conditions. Travel in avalanche terrain not recommended.''),
         (5, ''Extraordinary avalanche situation. Avoid all avalanche terrain.'')]
      in js_or (tbl_get descriptions level) (tbl_get descriptions (Num 3)))"

definition getDefaultElevationBands :: "jsnum \<Rightarrow> elevationBand list" where
  "getDefaultElevationBands riskLevel =
     [\<lparr>elevation = ''Above 2500m'',
       risk = Math_min (plus_lit riskLevel 1) (Num 5),
       aspects = [''N'', ''NE'', ''E'', ''NW''],
       description = translateRiskDescription (Math_min (plus_lit riskLevel 1) (Num 5))\<rparr>,
      \<lparr>elevation = ''2000m - 2500m'',
       risk = riskLevel,
       aspects = [''N'', ''NE'', ''E''],
       description = translateRiskDescription riskLevel\<rparr>,
      \<lparr>elevation = ''Below 2000m'',
       risk = Math_max (minus_lit riskLevel 1) (Num 1),
       aspects = [''S'', ''SE'', ''SW'', ''W''],
       description = translateRiskDescription (Math_max (minus_lit riskLevel 1) (Num 1))\<rparr>]"

section \<open>Resources, cache and server state (third revision)\<close>

text \<open>
  Dates are formatted by the runtime (\<open>toISOString\<close>, \<open>toLocaleDateString('en-GB')\<close> in the
  time zone of the process). The formatted text is kept symbolic: \<open>ISOString t\<close> is
  \<open>new Date(t).toISOString()\<close>, \<open>LocaleDateString_enGB t\<close> is
  \<open>new Date(t).toLocaleDateString('en-GB')\<close> and \<open>LocaleDateString_enGB_of s\<close> is
  \<open>new Date(s).toLocaleDateString('en-GB')\<close> for a date text \<open>s\<close>. Times are milliseconds.
\<close>

datatype dateText =
    ISOString int
  | LocaleDateString_enGB int
  | LocaleDateString_enGB_of string

record bulletin =
  massif :: string
  updateTime :: dateText
  validUntil :: dateText
  overallRisk :: jsnum
  summary :: string
  elevationBands :: "elevationBand list"
  problems :: "problem list"
  snowpack :: snowpackInfo
  weather :: weatherInfo
  tendency :: string
  source :: string
  dataSource :: string
  error :: "string option"
  note' :: "string option"

text \<open>
  The warnings resource. Its \<open>updateTime\<close>, \<open>source\<close> and \<open>note\<close> properties carry the
  prefix \<open>w_\<close> here, a record field being one constant. An alert has the shape the
  second revision gives it.
\<close>

record alert =
  alertType :: string
  level :: string
  levelNumber :: int
  title :: string
  alertDescription :: string

record warningsResource =
  department :: string
  w_updateTime :: dateText
  alerts :: "alert list"
  w_source :: string
  w_note :: "string option"

text \<open>
  The reshaped extended forecast. Its daily entries are computed from the weather
  service's arrays with floating-point rounding and locale formatting; the document is
  kept opaque.
\<close>

typedecl forecastData

text \<open>
  \<open>const cache = { avalanche, warnings, extendedForecast }\<close>: each slot holds \<open>data\<close> and
  \<open>timestamp\<close>, both \<open>null\<close> at start; the forecast slot gets a \<open>cacheKey\<close> when it is
  written.
\<close>

record 'a cacheEntry =
  data :: "'a option"
  timestamp :: "int option"

record 'a keyedEntry = "'a cacheEntry" +
  cacheKey :: "string option"

record cacheSlots =
  avalanche :: "bulletin cacheEntry"
  warnings :: "warningsResource cacheEntry"
  extendedForecast :: "forecastData keyedEntry"

definition CACHE_DURATION :: int where
  "CACHE_DURATION = 6 * 60 * 60 * 1000"

text \<open>
  \<open>isCacheValid(cacheEntry)\<close>, with the reading of \<open>Date.now()\<close> as first argument.
  \<open>!cacheEntry.timestamp\<close> holds for \<open>null\<close> and for the number 0; \<open>data\<close> is \<open>null\<close> or an
  object.
\<close>

definition isCacheValid :: "int \<Rightarrow> ('a, 'm) cacheEntry_scheme \<Rightarrow> bool" where
  "isCacheValid now cacheEntry =
     (if data cacheEntry = None \<or> timestamp cacheEntry = None \<or> timestamp cacheEntry = Some 0
      then False
      else (case timestamp cacheEntry of
              None \<Rightarrow> False
            | Some t \<Rightarrow> now - t < CACHE_DURATION))"

text \<open>
  The server: the cache, and the list of the outbound requests issued so far (the URL of
  each \<open>axios.get\<close>, oldest first), which the code does not store but the network sees.
\<close>

record server =
  cache :: cacheSlots
  outbound :: "string list"

definition startup :: server where
  "startup =
     \<lparr>cache =
        \<lparr>avalanche = \<lparr>data = None, timestamp = None\<rparr>,
         warnings = \<lparr>data = None, timestamp = None\<rparr>,
         extendedForecast = \<lparr>data = None, timestamp = None, cacheKey = None\<rparr>\<rparr>,
      outbound = []\<rparr>"

text \<open>
  A response: the HTTP status and the JSON body. \<open>res.json(x)\<close> answers with status 200;
  \<open>NullBody\<close> is the body \<open>null\<close>.
\<close>

datatype payload =
    BulletinBody bulletin
  | WarningsBody warningsResource
  | ForecastBody forecastData
  | ErrorBody string string
  | NullBody

record response =
  status :: nat
  body :: payload

definition res_json :: "payload \<Rightarrow> response" where
  "res_json b = \<lparr>status = 200, body = b\<rparr>"

definition cached :: "('a \<Rightarrow> payload) \<Rightarrow> ('a, 'm) cacheEntry_scheme \<Rightarrow> payload" where
  "cached wrap cacheEntry = (case data cacheEntry of None \<Rightarrow> NullBody | Some d \<Rightarrow> wrap d)"

text \<open>
  The readings of the clock during one request: \<open>tCheck\<close> in \<open>isCacheValid\<close>, \<open>tValid\<close>
  for the default \<open>validUntil\<close>, \<open>tUpdate\<close> for \<open>updateTime\<close>, \<open>tStore\<close> for the timestamp
  of the cache entry.
\<close>

record clock =
  tCheck :: int
  tValid :: int
  tUpdate :: int
  tStore :: int

section \<open>Endpoints (third revision)\<close>

text \<open>
  The structured bulletin as the handler reads it: the attributes \<open>LOC1\<close> and \<open>LOC2\<close> of
  the \<open>RISQUE\<close> element (\<open>undefined\<close> when absent) and the text of \<open>DateValidite\<close>.
\<close>

record xmlDoc =
  LOC1 :: "string option"
  LOC2 :: "string option"
  DateValidite :: string

definition getFallbackBulletin :: "clock \<Rightarrow> bulletin" where
  "getFallbackBulletin c =
     \<lparr>massif = ''Vanoise'',
      updateTime = ISOString (tUpdate c),
      validUntil = LocaleDateString_enGB (tValid c + 24 * 60 * 60 * 1000),
      overallRisk = Num 3,
      summary = ''Unable to fetch current data from '' @ Meteo_France
        @ ''. Please visit the official bulletin for today's avalanche forecast. As a general guideline, exercise considerable caution in the backcountry.'',
      elevationBands = generateElevationBands (Num 3) (Num 2),
      problems = generateProblems (Num 3),
      snowpack =
        \<lparr>recentSnow = ''Check '' @ Meteo_France @ '' for current snowfall data'',
         totalDepth = ''Variable by location and elevation'',
         quality = ''Refer to official bulletin for snowpack analysis''\<rparr>,
      weather =
        \<lparr>forecast = ''See '' @ Meteo_France @ '' for current mountain weather forecast'',
         temperature = ''Refer to official forecast'',
         wind = ''Check current conditions on '' @ Meteo_France\<rparr>,
      tendency = ''Monitor daily bulletins from '' @ Meteo_France @ '' for trend information'',
      source = ''https://meteofrance.com/meteo-montagne/alpes-du-nord/risques-avalanche'',
      dataSource = ''Fallback - Unable to connect to '' @ Meteo_France,
      error = Some (''Connection to '' @ Meteo_France @ '' failed. Please check the official bulletin.''),
      note' = Some (''U+26A0 U+FE0F This is fallback data. Always consult the official ''
        @ Meteo_France @ '' bulletin before backcountry travel.'')\<rparr>"

text \<open>
  \<open>GET /api/avalanche/vanoise\<close>. \<open>upstream\<close> is the outcome of the inner \<open>try\<close> block up to
  the parsed document: \<open>Inl message\<close> when \<open>axios.get\<close> (or the loading of the document)
  raises, which the inner \<open>catch\<close> rethrows to the outer one.
\<close>

definition avalancheHandler :: "clock \<Rightarrow> string + xmlDoc \<Rightarrow> server \<Rightarrow> response \<times> server" where
  "avalancheHandler c upstream s =
     (if isCacheValid (tCheck c) (avalanche (cache s))
      then (res_json (cached BulletinBody (avalanche (cache s))), s)
      else
        let s1 = s\<lparr>outbound := outbound s
                  @ [''https://donneespubliques.meteofrance.fr/donnees_libres/Pdf/BRA/BRA.VANOISE.xml'']\<rparr>
        in case upstream of
             Inr doc \<Rightarrow>
               let loc1 = parseInt (str_or (LOC1 doc) ''3'');
                   loc2 = parseInt (str_or (LOC2 doc) ''2'');
                   overall = Math_max loc1 loc2;
                   dateValidite = DateValidite doc;
                   valid = (if dateValidite \<noteq> [] then LocaleDateString_enGB_of dateValidite
                            else LocaleDateString_enGB (tValid c + 24 * 60 * 60 * 1000));
                   b = \<lparr>massif = ''Vanoise'',
                        updateTime = ISOString (tUpdate c),
                        validUntil = valid,
                        overallRisk = overall,
                        summary = generateDetailedSummary overall loc1 loc2,
                        elevationBands = generateElevationBands loc1 loc2,
                        problems = generateProblems overall,
                        snowpack = generateSnowpackInfo overall,
                        weather = generateWeatherInfo overall,
                        tendency = generateTendency overall,
                        source = ''https://meteofrance.com/meteo-montagne/alpes-du-nord/risques-avalanche'',
                        dataSource = Meteo_France @ '' XML (Risk levels) + Enhanced descriptions'',
                        error = None,
                        note' = Some (''Risk levels from '' @ Meteo_France
                          @ ''. Visit the official bulletin for complete details including snowpack analysis and weather forecast.'')\<rparr>
               in (res_json (BulletinBody b),
                   s1\<lparr>cache := (cache s1)\<lparr>avalanche := \<lparr>data = Some b, timestamp = Some (tStore c)\<rparr>\<rparr>\<rparr>)
           | Inl message \<Rightarrow> (res_json (BulletinBody (getFallbackBulletin c)), s1))"

text \<open>
  \<open>GET /api/warnings/savoie\<close>. Nothing in its \<open>try\<close> block can raise (no request is sent),
  so the \<open>catch\<close> block, which would answer with an empty \<open>alerts\<close> list too, is never
  entered.
\<close>

definition warningsHandler :: "clock \<Rightarrow> server \<Rightarrow> response \<times> server" where
  "warningsHandler c s =
     (if isCacheValid (tCheck c) (warnings (cache s))
      then (res_json (cached WarningsBody (warnings (cache s))), s)
      else
        let w = \<lparr>department = ''Savoie'',
                 w_updateTime = ISOString (tUpdate c),
                 alerts = [],
                 w_source = ''https://vigilance.meteofrance.fr/fr/savoie'',
                 w_note = Some (''Check '' @ Meteo_France @ '' Vigilance for current weather warnings'')\<rparr>
        in (res_json (WarningsBody w),
            s\<lparr>cache := (cache s)\<lparr>warnings := \<lparr>data = Some w, timestamp = Some (tStore c)\<rparr>\<rparr>\<rparr>))"

text \<open>
  \<open>GET /api/forecast/extended\<close>. The query parameters are strings or absent. \<open>upstream\<close>
  is the outcome of \<open>axios.get\<close> followed by the reshaping loop: \<open>Inl message\<close> when either
  raises an error with that message.
\<close>

record query =
  lat :: "string option"
  lon :: "string option"
  days :: "string option"

text \<open>The local constants \<open>latitude\<close>, \<open>longitude\<close>, \<open>forecastDays\<close> and \<open>cacheKey\<close> of the handler.\<close>

definition forecastCacheKey :: "query \<Rightarrow> string" where
  "forecastCacheKey q =
     (let latitude = str_or (lat q) ''45.4'';
          longitude = str_or (lon q) ''6.57'';
          forecastDays = Math_min (num_or (parseInt (ToString (days q))) 7) (Num 16)
      in latitude @ ''_'' @ longitude @ ''_'' @ toString forecastDays)"

definition forecastHandler ::
  "clock \<Rightarrow> query \<Rightarrow> string + forecastData \<Rightarrow> server \<Rightarrow> response \<times> server" where
  "forecastHandler c q upstream s =
     (let key = forecastCacheKey q
      in if isCacheValid (tCheck c) (extendedForecast (cache s))
            \<and> cacheKey (extendedForecast (cache s)) = Some key
         then (res_json (cached ForecastBody (extendedForecast (cache s))), s)
         else
           let s1 = s\<lparr>outbound := outbound s @ [''https://api.open-meteo.com/v1/forecast'']\<rparr>
           in case upstream of
                Inr forecastData \<Rightarrow>
                  (res_json (ForecastBody forecastData),
                   s1\<lparr>cache := (cache s1)\<lparr>extendedForecast :=
                       \<lparr>data = Some forecastData, timestamp = Some (tStore c), cacheKey = Some key\<rparr>\<rparr>\<rparr>)
              | Inl message \<Rightarrow>
                  (\<lparr>status = 500,
                    body = ErrorBody ''Failed to fetch extended forecast'' message\<rparr>, s1))"

text \<open>The requests that reach the cache, and the server after a sequence of them.\<close>

datatype request =
    GetAvalanche clock "string + xmlDoc"
  | GetWarnings clock
  | GetForecast clock query "string + forecastData"

fun handle :: "request \<Rightarrow> server \<Rightarrow> response \<times> server" where
  "handle (GetAvalanche c upstream) s = avalancheHandler c upstream s"
| "handle (GetWarnings c) s = warningsHandler c s"
| "handle (GetForecast c q upstream) s = forecastHandler c q upstream s"

definition serve :: "request list \<Rightarrow> server \<Rightarrow> server" where
  "serve rs s = foldl (\<lambda>s r. snd (handle r s)) s rs"

section \<open>Predicates and inputs of the statements\<close>

text \<open>A risk within 1 to 5, and a list of risks that never increases from one to the next.\<close>

definition inRange :: "jsnum \<Rightarrow> bool" where
  "inRange r = (ge_lit r 1 \<and> js_le r (Num 5))"

definition nonIncreasing :: "jsnum list \<Rightarrow> bool" where
  "nonIncreasing rs = sorted_wrt (\<lambda>a b. js_le b a) rs"

text \<open>The page text "risque marqu\<acute>e", and the eight keywords of the scan.\<close>

definition risque_marque :: string where
  "risque_marque = ''risque marqu'' @ [CHR 0xE9]"

definition riskKeywords :: "string list" where
  "riskKeywords =
     [''4'', ''fort'', ''3'', ''marqu'' @ [CHR 0xE9], ''2'', ''limit'' @ [CHR 0xE9], ''1'', ''faible'']"

text \<open>The bulletin or the warnings resource a response carries, if it carries one.\<close>

definition bulletinOf :: "response \<Rightarrow> bulletin option" where
  "bulletinOf r = (case body r of BulletinBody b \<Rightarrow> Some b | _ \<Rightarrow> None)"

definition warningsOf :: "response \<Rightarrow> warningsResource option" where
  "warningsOf r = (case body r of WarningsBody w \<Rightarrow> Some w | _ \<Rightarrow> None)"

text \<open>The address of the structured bulletin, as the handler requests it.\<close>

definition BRA_URL :: string where
  "BRA_URL = ''https://donneespubliques.meteofrance.fr/donnees_libres/Pdf/BRA/BRA.VANOISE.xml''"

text \<open>
  Three requests one hour apart (15 January 2025, 12:00, 13:00 and 14:00 UTC), two
  structured bulletins, the server after a successful fetch at noon, and a forecast
  request with no parameter.
\<close>

definition noon :: clock where
  "noon = \<lparr>tCheck = 1736942400000, tValid = 1736942400350, tUpdate = 1736942400351,
            tStore = 1736942400352\<rparr>"

definition one_pm :: clock where
  "one_pm = \<lparr>tCheck = 1736946000000, tValid = 1736946000350, tUpdate = 1736946000351,
              tStore = 1736946000352\<rparr>"

definition two_pm :: clock where
  "two_pm = \<lparr>tCheck = 1736949600000, tValid = 1736949600350, tUpdate = 1736949600351,
              tStore = 1736949600352\<rparr>"

definition doc_4_2 :: xmlDoc where
  "doc_4_2 = \<lparr>LOC1 = Some ''4'', LOC2 = Some ''2'', DateValidite = ''2025-01-16T16:00:00''\<rparr>"

definition doc_bare :: xmlDoc where
  "doc_bare = \<lparr>LOC1 = None, LOC2 = None, DateValidite = []\<rparr>"

definition warm :: server where
  "warm = snd (avalancheHandler noon (Inr doc_4_2) startup)"

definition no_query :: query where
  "no_query = \<lparr>lat = None, lon = None, days = None\<rparr>"

text \<open>The cached warnings resource, if there is one, has no alert.\<close>

definition alertsEmpty :: "server \<Rightarrow> bool" where
  "alertsEmpty s = (case data (warnings (cache s)) of None \<Rightarrow> True | Some w \<Rightarrow> alerts w = [])"

section \<open>Properties of the forecast helper\<close>

lemma estimateAvalancheRisk_heavy_snow:
  "exceeds snowfall 20 \<Longrightarrow> estimateAvalancheRisk snowfall windSpeed temp = ''considerable''"
  by (simp add: estimateAvalancheRisk_def Let_def)

lemma estimateAvalancheRisk_wind_escalates:
  "\<not> exceeds snowfall 10 \<Longrightarrow> exceeds windSpeed 40 \<Longrightarrow>
   estimateAvalancheRisk snowfall windSpeed temp = ''moderate''"
  by (cases snowfall) (simp_all add: estimateAvalancheRisk_def Let_def)

text \<open>
  C7. \<open>estimateAvalancheRisk\<close> returns "considerable" for snowfall 25, wind 10 and
  temperature -5, and "moderate" for snowfall 5, wind 45 and temperature -5.
\<close>

theorem estimateAvalancheRisk_examples:
  "estimateAvalancheRisk (Finite 25) (Finite 10) (Finite (- 5)) = ''considerable'' \<and>
   estimateAvalancheRisk (Finite 5) (Finite 45) (Finite (- 5)) = ''moderate''"
  by (simp add: estimateAvalancheRisk_def Let_def)

text \<open>
  C9. For every combination of snowfall, wind speed and temperature (infinities and
  \<open>NaN\<close> included), \<open>estimateAvalancheRisk\<close> returns "low", "moderate" or "considerable",
  and so never "high".
\<close>

theorem estimateAvalancheRisk_range:
  "estimateAvalancheRisk snowfall windSpeed temp \<in> {''low'', ''moderate'', ''considerable''} \<and>
   estimateAvalancheRisk snowfall windSpeed temp \<noteq> ''high''"
  by (simp add: estimateAvalancheRisk_def Let_def)

section \<open>Properties of the elevation bands\<close>

text \<open>
  C4 (as amended). For every pair of risk levels in 1..5 given as high-altitude and
  low-altitude inputs, \<open>generateElevationBands\<close> returns exactly three bands ordered from
  the highest to the lowest altitude, with the risks high, max (high - 1) low, low, each
  within 1..5; the risks are non-increasing as elevation decreases exactly when
  low \<open>\<le>\<close> high. The one-level builder \<open>getDefaultElevationBands\<close> of the second revision
  returns three bands in the same order whose risks are within 1..5 and non-increasing,
  for every level in 1..5.
\<close>

theorem elevation_bands:
  assumes "1 \<le> h" and "h \<le> 5" and "1 \<le> l" and "l \<le> 5"
  shows "map elevation (generateElevationBands (Num h) (Num l))
           = [''Above 2500m'', ''2000m - 2500m'', ''Below 2000m''] \<and>
         map risk (generateElevationBands (Num h) (Num l))
           = [Num h, Num (max (h - 1) l), Num l] \<and>
         list_all inRange (map risk (generateElevationBands (Num h) (Num l))) \<and>
         (nonIncreasing (map risk (generateElevationBands (Num h) (Num l))) \<longleftrightarrow> l \<le> h) \<and>
         map elevation (getDefaultElevationBands (Num h))
           = [''Above 2500m'', ''2000m - 2500m'', ''Below 2000m''] \<and>
         list_all inRange (map risk (getDefaultElevationBands (Num h))) \<and>
         nonIncreasing (map risk (getDefaultElevationBands (Num h)))"
  using assms
  by (auto simp add: generateElevationBands_def getDefaultElevationBands_def inRange_def
        nonIncreasing_def)

theorem elevation_bands_witness:
  "map elevation (generateElevationBands (Num 4) (Num 2))
           = [''Above 2500m'', ''2000m - 2500m'', ''Below 2000m''] \<and>
   map risk (generateElevationBands (Num 4) (Num 2)) = [Num 4, Num 3, Num 2] \<and>
   list_all inRange (map risk (generateElevationBands (Num 4) (Num 2))) \<and>
   nonIncreasing (map risk (generateElevationBands (Num 4) (Num 2))) \<and>
   list_all inRange (map risk (getDefaultElevationBands (Num 4))) \<and>
   nonIncreasing (map risk (getDefaultElevationBands (Num 4)))"
  using elevation_bands [of 4 2] by (simp add: inRange_def nonIncreasing_def)

text \<open>
  The claim as stated fails at high = 1, low = 2: the band risks are 1, 2, 2 from the top
  down.
\<close>

theorem elevation_bands_counterexample:
  "\<not> nonIncreasing (map risk (generateElevationBands (Num 1) (Num 2)))"
  by (simp add: generateElevationBands_def nonIncreasing_def)

section \<open>Properties of the risk-rule engine\<close>

lemma tbl_get_undefined:
  "n < 1 \<or> 5 < n \<Longrightarrow> tbl_get [(1, a), (2, b), (3, c), (4, d), (5, e)] (Num n) = None"
  by (auto simp add: tbl_get_def)

text \<open>
  C5 (as amended). For every integer risk level outside 1..5, no function of the engine
  raises; the description and the summary are those of level 3; above 5, the snowpack
  and weather texts are those of level 3 and the problems and the tendency are those of
  level 5 (the highest threshold); below 1, problems, snowpack, weather and tendency are
  those of level 1 (no threshold is reached).
\<close>

theorem out_of_range:
  assumes "n < 1 \<or> 5 < n"
  shows "getRiskDescription (Num n) = getRiskDescription (Num 3) \<and>
         generateDetailedSummary (Num n) high low = generateDetailedSummary (Num 3) high low \<and>
         (5 < n \<longrightarrow>
            generateSnowpackInfo (Num n) = generateSnowpackInfo (Num 3) \<and>
            generateWeatherInfo (Num n) = generateWeatherInfo (Num 3) \<and>
            generateProblems (Num n) = generateProblems (Num 5) \<and>
            generateTendency (Num n) = generateTendency (Num 5)) \<and>
         (n < 1 \<longrightarrow>
            generateSnowpackInfo (Num n) = generateSnowpackInfo (Num 1) \<and>
            generateWeatherInfo (Num n) = generateWeatherInfo (Num 1) \<and>
            generateProblems (Num n) = generateProblems (Num 1) \<and>
            generateTendency (Num n) = generateTendency (Num 1))"
proof -
  have d: "getRiskDescription (Num n) = getRiskDescription (Num 3)"
    using assms
    by (simp add: getRiskDescription_def tbl_get_undefined js_or_def) (simp add: tbl_get_def)
  have s: "generateDetailedSummary (Num n) high low = generateDetailedSummary (Num 3) high low"
    using assms
    by (simp add: generateDetailedSummary_def tbl_get_undefined js_or_def)
       (simp add: tbl_get_def)
  have hi: "5 < n \<Longrightarrow>
            generateSnowpackInfo (Num n) = generateSnowpackInfo (Num 3) \<and>
            generateWeatherInfo (Num n) = generateWeatherInfo (Num 3) \<and>
            generateProblems (Num n) = generateProblems (Num 5) \<and>
            generateTendency (Num n) = generateTendency (Num 5)"
    by (simp add: generateSnowpackInfo_def generateWeatherInfo_def generateProblems_def
          generateTendency_def)
  have lo: "n < 1 \<Longrightarrow>
            generateSnowpackInfo (Num n) = generateSnowpackInfo (Num 1) \<and>
            generateWeatherInfo (Num n) = generateWeatherInfo (Num 1) \<and>
            generateProblems (Num n) = generateProblems (Num 1) \<and>
            generateTendency (Num n) = generateTendency (Num 1)"
    by (simp add: generateSnowpackInfo_def generateWeatherInfo_def generateProblems_def
          generateTendency_def)
  from d s hi lo show ?thesis by blast
qed

theorem out_of_range_witness:
  "getRiskDescription (Num 6) = getRiskDescription (Num 3) \<and>
   generateDetailedSummary (Num 6) (Num 6) (Num 2) = generateDetailedSummary (Num 3) (Num 6) (Num 2) \<and>
   generateProblems (Num 6) = generateProblems (Num 5) \<and>
   generateTendency (Num 6) = generateTendency (Num 5) \<and>
   getRiskDescription (Num 0) = getRiskDescription (Num 3) \<and>
   generateProblems (Num 0) = generateProblems (Num 1) \<and>
   generateTendency (Num 0) = generateTendency (Num 1)"
  using out_of_range [of 6 "Num 6" "Num 2"] out_of_range [of 0 "Num 6" "Num 2"] by simp

text \<open>
  The claim as stated fails at 0 and at 6: level 0 yields the placeholder problem where
  level 3 yields three problems, and level 6 yields the tendency of the levels from 4 up.
\<close>

theorem out_of_range_counterexample:
  "generateProblems (Num 0) \<noteq> generateProblems (Num 3) \<and>
   generateTendency (Num 6) \<noteq> generateTendency (Num 3)"
  by (simp add: generateProblems_def generateTendency_def)

section \<open>Properties of the heuristic scan\<close>

lemma startsWith_iff: "startsWith hay needle \<longleftrightarrow> (\<exists>s. hay = needle @ s)"
  by (induction hay needle rule: startsWith.induct) auto

lemma str_includes_iff: "str_includes hay needle \<longleftrightarrow> (\<exists>p s. hay = p @ needle @ s)"
proof (induction hay)
  case Nil
  then show ?case by simp
next
  case (Cons h hs)
  show ?case
  proof
    assume "str_includes (h # hs) needle"
    then consider "startsWith (h # hs) needle" | "str_includes hs needle" by auto
    then show "\<exists>p s. h # hs = p @ needle @ s"
    proof cases
      case 1
      then obtain s where "h # hs = needle @ s" using startsWith_iff by blast
      then have "h # hs = [] @ needle @ s" by simp
      then show ?thesis by blast
    next
      case 2
      then obtain p s where "hs = p @ needle @ s" using Cons.IH by blast
      then have "h # hs = (h # p) @ needle @ s" by simp
      then show ?thesis by blast
    qed
  next
    assume "\<exists>p s. h # hs = p @ needle @ s"
    then obtain p s where eq: "h # hs = p @ needle @ s" by blast
    show "str_includes (h # hs) needle"
    proof (cases p)
      case Nil
      then have "startsWith (h # hs) needle" using eq startsWith_iff by auto
      then show ?thesis by simp
    next
      case (Cons a p')
      then have "hs = p' @ needle @ s" using eq by simp
      then have "str_includes hs needle" using Cons.IH by blast
      then show ?thesis by simp
    qed
  qed
qed

lemma str_includes_toLowerCase:
  "str_includes hay needle \<Longrightarrow> str_includes (toLowerCase hay) (toLowerCase needle)"
  unfolding str_includes_iff toLowerCase_def by (metis map_append)

lemma str_includes_trans:
  "str_includes hay mid \<Longrightarrow> str_includes mid needle \<Longrightarrow> str_includes hay needle"
  unfolding str_includes_iff by (metis append.assoc)

lemma lower_fort: "toLowerCase ''fort'' = ''fort''"
  by code_simp

lemma lower_marque: "str_includes (toLowerCase risque_marque) (''marqu'' @ [CHR 0xE9])"
  unfolding risque_marque_def by code_simp

text \<open>
  C6. The keyword scan of \<open>scrapeMeteoFranceWeb\<close> (and \<open>extractOverallRisk\<close> of the first
  revision) resolves 4 for every text containing "fort"; 3 for every text containing
  "risque marqu\<acute>e" in which no keyword of level 4 ("fort", "4") occurs, the keywords of
  higher severity being checked first; and the default 3 for every text in which none of
  the eight keywords occurs. The text is lower-cased before the search.
\<close>

theorem keyword_scan:
  "(str_includes text ''fort'' \<longrightarrow>
      scrapeMeteoFranceWeb_riskLevel text = Num 4 \<and> extractOverallRisk text = Num 4) \<and>
   (str_includes text risque_marque
      \<and> \<not> str_includes (toLowerCase text) ''fort'' \<and> \<not> str_includes (toLowerCase text) ''4'' \<longrightarrow>
      scrapeMeteoFranceWeb_riskLevel text = Num 3 \<and> extractOverallRisk text = Num 3) \<and>
   (list_all (\<lambda>k. \<not> str_includes (toLowerCase text) k) riskKeywords \<longrightarrow>
      scrapeMeteoFranceWeb_riskLevel text = Num 3 \<and> extractOverallRisk text = Num 3)"
proof (intro conjI impI)
  assume "str_includes text ''fort''"
  then have f: "str_includes (toLowerCase text) ''fort''"
    using str_includes_toLowerCase lower_fort by metis
  show "scrapeMeteoFranceWeb_riskLevel text = Num 4"
    using f by (simp add: scrapeMeteoFranceWeb_riskLevel_def)
  show "extractOverallRisk text = Num 4"
    using f by (simp add: extractOverallRisk_def)
next
  assume a: "str_includes text risque_marque
      \<and> \<not> str_includes (toLowerCase text) ''fort'' \<and> \<not> str_includes (toLowerCase text) ''4''"
  then have "str_includes (toLowerCase text) (toLowerCase risque_marque)"
    using str_includes_toLowerCase by blast
  then have m: "str_includes (toLowerCase text) (''marqu'' @ [CHR 0xE9])"
    using lower_marque str_includes_trans by blast
  show "scrapeMeteoFranceWeb_riskLevel text = Num 3"
    using a m by (simp add: scrapeMeteoFranceWeb_riskLevel_def)
  show "extractOverallRisk text = Num 3"
    using a m by (simp add: extractOverallRisk_def)
next
  assume n: "list_all (\<lambda>k. \<not> str_includes (toLowerCase text) k) riskKeywords"
  show "scrapeMeteoFranceWeb_riskLevel text = Num 3"
    using n by (simp add: scrapeMeteoFranceWeb_riskLevel_def riskKeywords_def)
  show "extractOverallRisk text = Num 3"
    using n by (simp add: extractOverallRisk_def riskKeywords_def)
qed

theorem keyword_scan_witness:
  "scrapeMeteoFranceWeb_riskLevel ''vent fort en altitude'' = Num 4 \<and>
   extractOverallRisk ''vent fort en altitude'' = Num 4 \<and>
   scrapeMeteoFranceWeb_riskLevel risque_marque = Num 3 \<and>
   extractOverallRisk risque_marque = Num 3 \<and>
   scrapeMeteoFranceWeb_riskLevel ''bulletin indisponible'' = Num 3 \<and>
   extractOverallRisk ''bulletin indisponible'' = Num 3"
proof -
  have 1: "str_includes ''vent fort en altitude'' ''fort''" by code_simp
  have 2: "str_includes risque_marque risque_marque
      \<and> \<not> str_includes (toLowerCase risque_marque) ''fort''
      \<and> \<not> str_includes (toLowerCase risque_marque) ''4''"
    unfolding risque_marque_def by code_simp
  have 3: "list_all (\<lambda>k. \<not> str_includes (toLowerCase ''bulletin indisponible'') k) riskKeywords"
    by code_simp
  show ?thesis
    using keyword_scan [of "''vent fort en altitude''"] keyword_scan [of risque_marque]
      keyword_scan [of "''bulletin indisponible''"] 1 2 3 by blast
qed

section \<open>Properties of the cache and of the avalanche endpoint\<close>

lemma startup_stale: "\<not> isCacheValid now (avalanche (cache startup))"
  by (simp add: isCacheValid_def startup_def)

lemma isCacheValid_iff:
  "isCacheValid now e \<longleftrightarrow>
     (\<exists>d t. data e = Some d \<and> timestamp e = Some t \<and> t \<noteq> 0 \<and> now - t < 6 * 60 * 60 * 1000)"
  by (auto simp add: isCacheValid_def CACHE_DURATION_def split: option.splits)

lemma avalanche_hit:
  "isCacheValid (tCheck c) (avalanche (cache s)) \<Longrightarrow>
   avalancheHandler c upstream s = (res_json (cached BulletinBody (avalanche (cache s))), s)"
  by (simp add: avalancheHandler_def)

lemma avalanche_fetched:
  assumes "\<not> isCacheValid (tCheck c) (avalanche (cache s))"
  shows "\<exists>b. avalancheHandler c (Inr doc) s
           = (res_json (BulletinBody b),
              s\<lparr>outbound := outbound s @ [BRA_URL],
                cache := (cache s)\<lparr>avalanche := \<lparr>data = Some b, timestamp = Some (tStore c)\<rparr>\<rparr>\<rparr>)"
  using assms by (simp add: avalancheHandler_def Let_def BRA_URL_def res_json_def)

lemma avalanche_miss_outbound:
  assumes "\<not> isCacheValid (tCheck c) (avalanche (cache s))"
  shows "outbound (snd (avalancheHandler c upstream s)) = outbound s @ [BRA_URL]"
  using assms by (cases upstream) (simp_all add: avalancheHandler_def Let_def BRA_URL_def)

text \<open>
  C3. On a cache miss with a fetched structured bulletin, the handler reads the risks of
  the zones \<open>LOC1\<close> (high altitude, "3" when absent or empty) and \<open>LOC2\<close> (low altitude,
  "2" when absent or empty); when they are the integers h and l, both safe integers
  (magnitude below \<open>2^53\<close>, where doubles are exact), the overall risk of the bulletin is
  max h l and its three bands carry h, max (h - 1) l and l. For h = 4 and l = 2 the
  overall risk is 4 and the mid band risk is 3.
\<close>

theorem structured_parser:
  assumes "\<not> isCacheValid (tCheck c) (avalanche (cache s))"
    and "parseInt (str_or (LOC1 doc) ''3'') = Num h"
    and "parseInt (str_or (LOC2 doc) ''2'') = Num l"
    and "safeInteger h" and "safeInteger l"
  shows "status (fst (avalancheHandler c (Inr doc) s)) = 200 \<and>
         map_option overallRisk (bulletinOf (fst (avalancheHandler c (Inr doc) s)))
           = Some (Num (max h l)) \<and>
         map_option (map risk \<circ> elevationBands) (bulletinOf (fst (avalancheHandler c (Inr doc) s)))
           = Some [Num h, Num (max (h - 1) l), Num l] \<and>
         (LOC1 doc = None \<or> LOC1 doc = Some [] \<longrightarrow> h = 3) \<and>
         (LOC2 doc = None \<or> LOC2 doc = Some [] \<longrightarrow> l = 2)"
proof -
  have p3: "parseInt ''3'' = Num 3" by code_simp
  have p2: "parseInt ''2'' = Num 2" by code_simp
  have d1: "LOC1 doc = None \<or> LOC1 doc = Some [] \<longrightarrow> h = 3"
    using assms(2) p3 by (auto simp add: str_or_def)
  have d2: "LOC2 doc = None \<or> LOC2 doc = Some [] \<longrightarrow> l = 2"
    using assms(3) p2 by (auto simp add: str_or_def)
  have r: "status (fst (avalancheHandler c (Inr doc) s)) = 200 \<and>
         map_option overallRisk (bulletinOf (fst (avalancheHandler c (Inr doc) s)))
           = Some (Num (max h l)) \<and>
         map_option (map risk \<circ> elevationBands) (bulletinOf (fst (avalancheHandler c (Inr doc) s)))
           = Some [Num h, Num (max (h - 1) l), Num l]"
    using assms(1-3)
    by (simp add: avalancheHandler_def Let_def res_json_def bulletinOf_def
          generateElevationBands_def)
  from r d1 d2 show ?thesis by blast
qed

theorem structured_parser_witness:
  "map_option overallRisk (bulletinOf (fst (avalancheHandler noon (Inr doc_4_2) startup)))
     = Some (Num 4) \<and>
   map_option (map risk \<circ> elevationBands) (bulletinOf (fst (avalancheHandler noon (Inr doc_4_2) startup)))
     = Some [Num 4, Num 3, Num 2] \<and>
   map_option overallRisk (bulletinOf (fst (avalancheHandler noon (Inr doc_bare) startup)))
     = Some (Num 3) \<and>
   map_option (map risk \<circ> elevationBands) (bulletinOf (fst (avalancheHandler noon (Inr doc_bare) startup)))
     = Some [Num 3, Num 2, Num 2]"
proof -
  have a: "parseInt (str_or (LOC1 doc_4_2) ''3'') = Num 4" by code_simp
  have b: "parseInt (str_or (LOC2 doc_4_2) ''2'') = Num 2" by code_simp
  have c: "parseInt (str_or (LOC1 doc_bare) ''3'') = Num 3" by code_simp
  have d: "parseInt (str_or (LOC2 doc_bare) ''2'') = Num 2" by code_simp
  have s4: "safeInteger 4" and s3: "safeInteger 3" and s2: "safeInteger 2"
    by (simp_all add: safeInteger_def)
  show ?thesis
    using structured_parser [OF startup_stale a b s4 s2, of noon]
      structured_parser [OF startup_stale c d s3 s2, of noon]
    by simp
qed

text \<open>
  C1 (as amended). When the cache is stale and the upstream attempt fails, the handler
  answers with status 200 and the synthesized fallback bulletin, after one outbound
  request, and leaves the cache as it was: the fallback is not stored, so a later request
  that finds the cache stale sends a new outbound request, whatever its upstream outcome.
\<close>

theorem fallback_not_cached:
  assumes "\<not> isCacheValid (tCheck c) (avalanche (cache s))"
  shows "avalancheHandler c (Inl message) s
           = (res_json (BulletinBody (getFallbackBulletin c)),
              s\<lparr>outbound := outbound s @ [BRA_URL]\<rparr>) \<and>
         cache (snd (avalancheHandler c (Inl message) s)) = cache s \<and>
         (\<not> isCacheValid (tCheck c') (avalanche (cache s)) \<longrightarrow>
            outbound (snd (avalancheHandler c' upstream' (snd (avalancheHandler c (Inl message) s))))
              = outbound s @ [BRA_URL, BRA_URL])"
proof -
  have 1: "avalancheHandler c (Inl message) s
           = (res_json (BulletinBody (getFallbackBulletin c)),
              s\<lparr>outbound := outbound s @ [BRA_URL]\<rparr>)"
    using assms by (simp add: avalancheHandler_def Let_def BRA_URL_def)
  have 2: "cache (snd (avalancheHandler c (Inl message) s)) = cache s"
    by (simp add: 1)
  have 3: "outbound (snd (avalancheHandler c' upstream' (snd (avalancheHandler c (Inl message) s))))
              = outbound s @ [BRA_URL, BRA_URL]"
    if "\<not> isCacheValid (tCheck c') (avalanche (cache s))"
  proof -
    have "\<not> isCacheValid (tCheck c') (avalanche (cache (snd (avalancheHandler c (Inl message) s))))"
      using that by (simp add: 2)
    then have "outbound (snd (avalancheHandler c' upstream' (snd (avalancheHandler c (Inl message) s))))
        = outbound (snd (avalancheHandler c (Inl message) s)) @ [BRA_URL]"
      by (rule avalanche_miss_outbound)
    then show ?thesis by (simp add: 1)
  qed
  from 1 2 3 show ?thesis by blast
qed

theorem fallback_not_cached_witness:
  "avalancheHandler noon (Inl ''timeout of 10000ms exceeded'') startup
     = (res_json (BulletinBody (getFallbackBulletin noon)),
        startup\<lparr>outbound := outbound startup @ [BRA_URL]\<rparr>) \<and>
   cache (snd (avalancheHandler noon (Inl ''timeout of 10000ms exceeded'') startup)) = cache startup \<and>
   outbound (snd (avalancheHandler one_pm (Inr doc_4_2)
       (snd (avalancheHandler noon (Inl ''timeout of 10000ms exceeded'') startup))))
     = outbound startup @ [BRA_URL, BRA_URL]"
  using fallback_not_cached [OF startup_stale, of noon "''timeout of 10000ms exceeded''" one_pm
      "Inr doc_4_2"]
    startup_stale [of "tCheck one_pm"]
  by blast

text \<open>
  The claim as stated fails on the first request after start when the upstream times
  out: the fallback bulletin is the answer and the avalanche slot still holds no data.
\<close>

theorem fallback_stored_counterexample:
  "fst (avalancheHandler noon (Inl ''timeout of 10000ms exceeded'') startup)
     = res_json (BulletinBody (getFallbackBulletin noon)) \<and>
   data (avalanche (cache (snd (avalancheHandler noon (Inl ''timeout of 10000ms exceeded'') startup))))
     = None"
  by (simp add: avalancheHandler_def Let_def isCacheValid_def startup_def)

text \<open>
  C2 (as amended). A cache lookup is a hit if and only if the entry has a payload and a
  non-zero timestamp and now minus the timestamp is strictly less than 6 hours. Two calls
  of the avalanche endpoint that both find the entry fresh send no request and answer
  with the same cached payload; and when the first call finds the cache stale, fetches
  the structured bulletin successfully and stores it at a non-zero time, a second call
  less than 6 hours after that time sends no further request (one in all) and answers
  with the identical payload.
\<close>

theorem cache_window:
  "(isCacheValid now e \<longleftrightarrow>
      (\<exists>d t. data e = Some d \<and> timestamp e = Some t \<and> t \<noteq> 0 \<and> now - t < 6 * 60 * 60 * 1000)) \<and>
   (isCacheValid (tCheck c1) (avalanche (cache s)) \<and> isCacheValid (tCheck c2) (avalanche (cache s)) \<longrightarrow>
      fst (avalancheHandler c2 up2 (snd (avalancheHandler c1 up1 s)))
        = fst (avalancheHandler c1 up1 s) \<and>
      outbound (snd (avalancheHandler c2 up2 (snd (avalancheHandler c1 up1 s)))) = outbound s) \<and>
   (\<not> isCacheValid (tCheck c1) (avalanche (cache s))
      \<and> tStore c1 \<noteq> 0 \<and> tCheck c2 - tStore c1 < CACHE_DURATION \<longrightarrow>
      fst (avalancheHandler c2 up2 (snd (avalancheHandler c1 (Inr doc) s)))
        = fst (avalancheHandler c1 (Inr doc) s) \<and>
      outbound (snd (avalancheHandler c2 up2 (snd (avalancheHandler c1 (Inr doc) s))))
        = outbound s @ [BRA_URL])"
proof (intro conjI impI)
  show "isCacheValid now e \<longleftrightarrow>
      (\<exists>d t. data e = Some d \<and> timestamp e = Some t \<and> t \<noteq> 0 \<and> now - t < 6 * 60 * 60 * 1000)"
    by (rule isCacheValid_iff)
next
  assume h: "isCacheValid (tCheck c1) (avalanche (cache s))
      \<and> isCacheValid (tCheck c2) (avalanche (cache s))"
  show "fst (avalancheHandler c2 up2 (snd (avalancheHandler c1 up1 s)))
        = fst (avalancheHandler c1 up1 s)"
    using h by (simp add: avalanche_hit)
  show "outbound (snd (avalancheHandler c2 up2 (snd (avalancheHandler c1 up1 s)))) = outbound s"
    using h by (simp add: avalanche_hit)
next
  assume h: "\<not> isCacheValid (tCheck c1) (avalanche (cache s))
      \<and> tStore c1 \<noteq> 0 \<and> tCheck c2 - tStore c1 < CACHE_DURATION"
  then obtain b where b: "avalancheHandler c1 (Inr doc) s
           = (res_json (BulletinBody b),
              s\<lparr>outbound := outbound s @ [BRA_URL],
                cache := (cache s)\<lparr>avalanche := \<lparr>data = Some b, timestamp = Some (tStore c1)\<rparr>\<rparr>\<rparr>)"
    using avalanche_fetched by blast
  have v: "isCacheValid (tCheck c2) (avalanche (cache (snd (avalancheHandler c1 (Inr doc) s))))"
    using h by (simp add: b isCacheValid_def)
  show "fst (avalancheHandler c2 up2 (snd (avalancheHandler c1 (Inr doc) s)))
        = fst (avalancheHandler c1 (Inr doc) s)"
    using v by (simp add: avalanche_hit) (simp add: b cached_def)
  show "outbound (snd (avalancheHandler c2 up2 (snd (avalancheHandler c1 (Inr doc) s))))
        = outbound s @ [BRA_URL]"
    using v by (simp add: avalanche_hit) (simp add: b)
qed

lemma warm_valid: "isCacheValid (tCheck one_pm) (avalanche (cache warm))"
  by (simp add: warm_def avalancheHandler_def Let_def isCacheValid_def startup_def one_pm_def
        noon_def CACHE_DURATION_def)

lemma warm_valid2: "isCacheValid (tCheck two_pm) (avalanche (cache warm))"
  by (simp add: warm_def avalancheHandler_def Let_def isCacheValid_def startup_def two_pm_def
        noon_def CACHE_DURATION_def)

theorem cache_window_witness:
  "fst (avalancheHandler two_pm (Inl ''Network Error'') (snd (avalancheHandler one_pm (Inl ''Network Error'') warm)))
     = fst (avalancheHandler one_pm (Inl ''Network Error'') warm) \<and>
   outbound (snd (avalancheHandler two_pm (Inl ''Network Error'') (snd (avalancheHandler one_pm (Inl ''Network Error'') warm))))
     = outbound warm \<and>
   fst (avalancheHandler one_pm (Inl ''Network Error'') (snd (avalancheHandler noon (Inr doc_4_2) startup)))
     = fst (avalancheHandler noon (Inr doc_4_2) startup) \<and>
   outbound (snd (avalancheHandler one_pm (Inl ''Network Error'') (snd (avalancheHandler noon (Inr doc_4_2) startup))))
     = outbound startup @ [BRA_URL]"
proof -
  have t: "tStore noon \<noteq> 0 \<and> tCheck one_pm - tStore noon < CACHE_DURATION"
    by (simp add: noon_def one_pm_def CACHE_DURATION_def)
  have w: "isCacheValid (tCheck one_pm) (avalanche (cache warm))
           \<and> isCacheValid (tCheck two_pm) (avalanche (cache warm))"
    using warm_valid warm_valid2 by simp
  have s: "\<not> isCacheValid (tCheck noon) (avalanche (cache startup))
           \<and> tStore noon \<noteq> 0 \<and> tCheck one_pm - tStore noon < CACHE_DURATION"
    using startup_stale t by simp
  have 1: "fst (avalancheHandler two_pm (Inl ''Network Error'') (snd (avalancheHandler one_pm (Inl ''Network Error'') warm)))
     = fst (avalancheHandler one_pm (Inl ''Network Error'') warm) \<and>
   outbound (snd (avalancheHandler two_pm (Inl ''Network Error'') (snd (avalancheHandler one_pm (Inl ''Network Error'') warm))))
     = outbound warm"
    using cache_window [where ?c1.0 = one_pm and s = warm and ?c2.0 = two_pm
        and ?up1.0 = "Inl ''Network Error''" and ?up2.0 = "Inl ''Network Error''",
        THEN conjunct2, THEN conjunct1, THEN mp, OF w] .
  have 2: "fst (avalancheHandler one_pm (Inl ''Network Error'') (snd (avalancheHandler noon (Inr doc_4_2) startup)))
     = fst (avalancheHandler noon (Inr doc_4_2) startup) \<and>
   outbound (snd (avalancheHandler one_pm (Inl ''Network Error'') (snd (avalancheHandler noon (Inr doc_4_2) startup))))
     = outbound startup @ [BRA_URL]"
    using cache_window [where ?c1.0 = noon and s = startup and ?c2.0 = one_pm
        and ?up2.0 = "Inl ''Network Error''" and doc = doc_4_2,
        THEN conjunct2, THEN conjunct2, THEN mp, OF s] .
  from 1 2 show ?thesis by blast
qed

text \<open>
  The claim as stated fails when the upstream is down: two requests one hour apart, both
  within the 6 hours, send two outbound requests.
\<close>

theorem cache_window_counterexample:
  "tCheck one_pm - tStore noon < CACHE_DURATION \<and>
   outbound (serve [GetAvalanche noon (Inl ''Network Error''),
                    GetAvalanche one_pm (Inl ''Network Error'')] startup)
     = [BRA_URL, BRA_URL]"
proof -
  have t: "tCheck one_pm - tStore noon < CACHE_DURATION"
    by (simp add: noon_def one_pm_def CACHE_DURATION_def)
  have 1: "snd (avalancheHandler noon (Inl ''Network Error'') startup)
             = startup\<lparr>outbound := [BRA_URL]\<rparr>"
    by (simp add: avalancheHandler_def Let_def startup_stale BRA_URL_def) (simp add: startup_def)
  have c: "\<not> isCacheValid (tCheck one_pm) (avalanche (cache (startup\<lparr>outbound := [BRA_URL]\<rparr>)))"
    by (simp add: isCacheValid_def startup_def)
  have 2: "snd (avalancheHandler one_pm (Inl ''Network Error'') (startup\<lparr>outbound := [BRA_URL]\<rparr>))
             = startup\<lparr>outbound := [BRA_URL, BRA_URL]\<rparr>"
    using c by (simp add: avalancheHandler_def Let_def BRA_URL_def)
  have "outbound (serve [GetAvalanche noon (Inl ''Network Error''),
                    GetAvalanche one_pm (Inl ''Network Error'')] startup)
     = [BRA_URL, BRA_URL]"
    by (simp add: serve_def 1 2)
  with t show ?thesis by simp
qed

section \<open>Properties of the responses\<close>

lemma isCacheValid_data: "isCacheValid now e \<Longrightarrow> \<exists>d. data e = Some d"
  by (cases "data e") (simp_all add: isCacheValid_def)

lemma avalanche_fallback:
  "\<not> isCacheValid (tCheck c) (avalanche (cache s)) \<Longrightarrow>
   fst (avalancheHandler c (Inl message) s) = res_json (BulletinBody (getFallbackBulletin c))"
  by (simp add: avalancheHandler_def Let_def)

lemma avalanche_body:
  "status (fst (avalancheHandler c upstream s)) = 200 \<and>
   bulletinOf (fst (avalancheHandler c upstream s)) \<noteq> None"
proof (cases "isCacheValid (tCheck c) (avalanche (cache s))")
  case True
  then obtain d where "data (avalanche (cache s)) = Some d"
    using isCacheValid_data by blast
  then show ?thesis
    using True by (simp add: avalanche_hit res_json_def bulletinOf_def cached_def)
next
  case False
  show ?thesis
  proof (cases upstream)
    case (Inl message)
    then show ?thesis
      using False by (simp add: avalanche_fallback res_json_def bulletinOf_def)
  next
    case (Inr doc)
    obtain b where "avalancheHandler c (Inr doc) s
           = (res_json (BulletinBody b),
              s\<lparr>outbound := outbound s @ [BRA_URL],
                cache := (cache s)\<lparr>avalanche := \<lparr>data = Some b, timestamp = Some (tStore c)\<rparr>\<rparr>\<rparr>)"
      using False avalanche_fetched by blast
    then show ?thesis
      using Inr by (simp add: res_json_def bulletinOf_def)
  qed
qed

lemma warnings_body:
  "status (fst (warningsHandler c s)) = 200 \<and> warningsOf (fst (warningsHandler c s)) \<noteq> None"
proof (cases "isCacheValid (tCheck c) (warnings (cache s))")
  case True
  then obtain d where "data (warnings (cache s)) = Some d"
    using isCacheValid_data by blast
  then show ?thesis
    using True by (simp add: warningsHandler_def res_json_def warningsOf_def cached_def)
next
  case False
  then show ?thesis
    by (simp add: warningsHandler_def Let_def res_json_def warningsOf_def)
qed

lemma forecast_failure:
  assumes "outbound (snd (forecastHandler c q (Inl message) s)) \<noteq> outbound s"
  shows "fst (forecastHandler c q (Inl message) s)
     = \<lparr>status = 500, body = ErrorBody ''Failed to fetch extended forecast'' message\<rparr>"
proof -
  define hit where "hit \<longleftrightarrow> isCacheValid (tCheck c) (extendedForecast (cache s))
            \<and> cacheKey (extendedForecast (cache s)) = Some (forecastCacheKey q)"
  have H: "forecastHandler c q (Inl message) s
     = (if hit then (res_json (cached ForecastBody (extendedForecast (cache s))), s)
        else (\<lparr>status = 500, body = ErrorBody ''Failed to fetch extended forecast'' message\<rparr>,
              s\<lparr>outbound := outbound s @ [''https://api.open-meteo.com/v1/forecast'']\<rparr>))"
    unfolding hit_def by (simp add: forecastHandler_def Let_def)
  show ?thesis
    using assms unfolding H by (cases hit) simp_all
qed

text \<open>
  C8. For every request, every cache state and every upstream outcome, the avalanche and
  the warnings endpoint answer with status 200 and a bulletin, respectively a warnings
  resource, as JSON body; the extended-forecast endpoint, whenever it sends its upstream
  request and that request (or the reshaping of its answer) fails with a message, answers
  with status 500 and the body \<open>{error: 'Failed to fetch extended forecast', message}\<close>.
\<close>

theorem transport_errors:
  "status (fst (avalancheHandler c upstream s)) = 200 \<and>
   bulletinOf (fst (avalancheHandler c upstream s)) \<noteq> None \<and>
   status (fst (warningsHandler c s)) = 200 \<and>
   warningsOf (fst (warningsHandler c s)) \<noteq> None \<and>
   (outbound (snd (forecastHandler c q (Inl message) s)) \<noteq> outbound s \<longrightarrow>
      fst (forecastHandler c q (Inl message) s)
        = \<lparr>status = 500, body = ErrorBody ''Failed to fetch extended forecast'' message\<rparr>)"
proof (intro conjI impI)
  show "status (fst (avalancheHandler c upstream s)) = 200"
    using avalanche_body by simp
  show "bulletinOf (fst (avalancheHandler c upstream s)) \<noteq> None"
    using avalanche_body by simp
  show "status (fst (warningsHandler c s)) = 200"
    using warnings_body by simp
  show "warningsOf (fst (warningsHandler c s)) \<noteq> None"
    using warnings_body by simp
next
  assume "outbound (snd (forecastHandler c q (Inl message) s)) \<noteq> outbound s"
  then show "fst (forecastHandler c q (Inl message) s)
        = \<lparr>status = 500, body = ErrorBody ''Failed to fetch extended forecast'' message\<rparr>"
    by (rule forecast_failure)
qed

theorem transport_errors_witness:
  "status (fst (avalancheHandler noon (Inl ''Network Error'') startup)) = 200 \<and>
   bulletinOf (fst (avalancheHandler noon (Inl ''Network Error'') startup)) \<noteq> None \<and>
   status (fst (warningsHandler noon startup)) = 200 \<and>
   warningsOf (fst (warningsHandler noon startup)) \<noteq> None \<and>
   fst (forecastHandler noon no_query (Inl ''Network Error'') startup)
     = \<lparr>status = 500, body = ErrorBody ''Failed to fetch extended forecast'' ''Network Error''\<rparr>"
proof -
  have f: "outbound (snd (forecastHandler noon no_query (Inl ''Network Error'') startup))
             \<noteq> outbound startup"
    by (simp add: forecastHandler_def Let_def isCacheValid_def startup_def)
  note t = transport_errors [of noon "Inl ''Network Error''" startup no_query "''Network Error''"]
  from t f show ?thesis by (elim conjE) (intro conjI, assumption+, erule (1) mp)
qed

section \<open>Properties of the warnings endpoint\<close>

lemma alertsEmpty_startup: "alertsEmpty startup"
  by (simp add: alertsEmpty_def startup_def)

lemma avalanche_keeps_warnings:
  "warnings (cache (snd (avalancheHandler c upstream s))) = warnings (cache s)"
  by (cases upstream) (simp_all add: avalancheHandler_def Let_def)

lemma forecast_keeps_warnings:
  "warnings (cache (snd (forecastHandler c q upstream s))) = warnings (cache s)"
  by (cases upstream) (simp_all add: forecastHandler_def Let_def)

lemma warnings_stores_empty:
  "alertsEmpty s \<Longrightarrow> alertsEmpty (snd (warningsHandler c s))"
  by (simp add: alertsEmpty_def warningsHandler_def Let_def)

lemma alertsEmpty_handle: "alertsEmpty s \<Longrightarrow> alertsEmpty (snd (handle r s))"
proof (cases r)
  case (GetAvalanche c upstream)
  assume "alertsEmpty s"
  then show ?thesis
    using GetAvalanche by (simp add: alertsEmpty_def avalanche_keeps_warnings)
next
  case (GetWarnings c)
  assume "alertsEmpty s"
  then show ?thesis
    using GetWarnings by (simp add: warnings_stores_empty)
next
  case (GetForecast c q upstream)
  assume "alertsEmpty s"
  then show ?thesis
    using GetForecast by (simp add: alertsEmpty_def forecast_keeps_warnings)
qed

lemma alertsEmpty_serve: "alertsEmpty s \<Longrightarrow> alertsEmpty (serve rs s)"
  unfolding serve_def
  by (induction rs arbitrary: s) (simp_all add: alertsEmpty_handle)

text \<open>
  C10. In the third revision the warnings endpoint answers every request with a warnings
  resource whose \<open>alerts\<close> list is empty: after any sequence of requests to the three
  endpoints since start, with any upstream outcomes, on a cache hit as on a miss.
\<close>

theorem warnings_alerts_empty:
  "map_option alerts (warningsOf (fst (warningsHandler c (serve rs startup)))) = Some []"
proof -
  have inv: "alertsEmpty (serve rs startup)"
    using alertsEmpty_startup by (rule alertsEmpty_serve)
  show ?thesis
  proof (cases "isCacheValid (tCheck c) (warnings (cache (serve rs startup)))")
    case True
    then obtain d where d: "data (warnings (cache (serve rs startup))) = Some d"
      using isCacheValid_data by blast
    then have "alerts d = []" using inv by (simp add: alertsEmpty_def)
    then show ?thesis
      using True d by (simp add: warningsHandler_def res_json_def warningsOf_def cached_def)
  next
    case False
    then show ?thesis
      by (simp add: warningsHandler_def Let_def res_json_def warningsOf_def)
  qed
qed

theorem warnings_alerts_empty_witness:
  "map_option alerts (warningsOf (fst (warningsHandler one_pm
     (serve [GetWarnings noon, GetAvalanche noon (Inr doc_4_2)] startup)))) = Some []"
  using warnings_alerts_empty [of one_pm "[GetWarnings noon, GetAvalanche noon (Inr doc_4_2)]"] .

end
